theory Spec2Isabelle
  imports Complex_Main "HOL-Library.Sublist"
begin

text \<open>
  The rewards server: a proof of a loyalty balance is posted to \<open>/receive-proofs\<close>,
  classified by platform, verified, its amount and address extracted, and the reward
  transferred on the ledger; \<open>/transfer-tokens\<close> transfers without a proof; observers
  are notified over web sockets. The handlers are functions of the request body and of
  an environment that holds the built-in functions and libraries the server calls; they
  return the response together with the calls made to the functions with an effect.
\<close>

section \<open>JavaScript values\<close>

text \<open>
  A Number is an IEEE-754 double. \<open>Fin m e\<close> is the finite value \<open>m * 2 ^ e\<close>
  (\<open>Fin 0 0\<close> is \<open>+0\<close>); the other constructors are the special values.
\<close>

datatype double = Fin int int | NegZero | PosInf | NegInf | NaN

text \<open>
  The values the handlers see: the results of \<open>JSON.parse\<close> and \<open>undefined\<close>, which
  reading an absent property yields. A string is the list of its characters, a character
  outside ASCII being the bytes of its UTF-8 encoding; an object is the list of its own
  properties, the first binding of a key being its value.
\<close>

datatype jsval =
    Undefined
  | Null
  | Bool bool
  | Num double
  | Str string
  | Arr "jsval list"
  | Obj "(string \<times> jsval) list"

text \<open>A thrown exception, with its \<open>message\<close>.\<close>

datatype error =
    TypeError string
  | RangeError string
  | SyntaxError string
  | URIError string
  | Error string

fun error_message :: "error \<Rightarrow> string" where
  "error_message (TypeError m) = m"
| "error_message (RangeError m) = m"
| "error_message (SyntaxError m) = m"
| "error_message (URIError m) = m"
| "error_message (Error m) = m"

text \<open>\<open>ToBoolean\<close>, as \<open>!x\<close> and \<open>x || y\<close> apply it.\<close>

fun truthy :: "jsval \<Rightarrow> bool" where
  "truthy Undefined = False"
| "truthy Null = False"
| "truthy (Bool b) = b"
| "truthy (Num (Fin m e)) = (m \<noteq> 0)"
| "truthy (Num NegZero) = False"
| "truthy (Num NaN) = False"
| "truthy (Num PosInf) = True"
| "truthy (Num NegInf) = True"
| "truthy (Str s) = (s \<noteq> [])"
| "truthy (Arr xs) = True"
| "truthy (Obj kvs) = True"

text \<open>A name between single quotes, as the messages of the exceptions show it.\<close>

definition quoted :: "string \<Rightarrow> string" where
  "quoted k = CHR 0x27 # k @ [CHR 0x27]"

text \<open>
  \<open>v.k\<close> for the property names this program reads (\<open>claimData\<close>, \<open>parameters\<close>,
  \<open>url\<close>, \<open>context\<close>, \<open>extractedParameters\<close>, \<open>balance\<close>, \<open>text\<close>,
  \<open>contextMessage\<close>, \<open>amount\<close>, \<open>address\<close>, \<open>platform\<close>), none of which a
  prototype defines: reading from \<open>undefined\<close> or \<open>null\<close> throws, an object gives its
  own property or \<open>undefined\<close>, every other value gives \<open>undefined\<close>.
\<close>

fun get_prop :: "jsval \<Rightarrow> string \<Rightarrow> error + jsval" where
  "get_prop Undefined k =
     Inl (TypeError (''Cannot read properties of undefined (reading '' @ quoted k @ '')''))"
| "get_prop Null k =
     Inl (TypeError (''Cannot read properties of null (reading '' @ quoted k @ '')''))"
| "get_prop (Obj kvs) k = (case map_of kvs k of None \<Rightarrow> Inr Undefined | Some v \<Rightarrow> Inr v)"
| "get_prop v k = Inr Undefined"

subsection \<open>String methods\<close>

text \<open>\<open>String.prototype.includes\<close>: \<open>pat\<close> occurs in \<open>s\<close> at some position.\<close>

fun str_includes :: "string \<Rightarrow> string \<Rightarrow> bool" where
  "str_includes [] pat = (pat = [])"
| "str_includes (c # cs) pat = (prefix pat (c # cs) \<or> str_includes cs pat)"

text \<open>
  \<open>String.prototype.replace\<close> with a string pattern and a replacement free of \<open>$\<close>:
  the first occurrence of \<open>pat\<close>, and only that one, is replaced.
\<close>

fun str_replace :: "string \<Rightarrow> string \<Rightarrow> string \<Rightarrow> string" where
  "str_replace [] pat rep = (if pat = [] then rep else [])"
| "str_replace (c # cs) pat rep =
     (if prefix pat (c # cs) then rep @ drop (length pat) (c # cs)
      else c # str_replace cs pat rep)"

text \<open>
  \<open>v.includes(pat)\<close> with a string argument: a string searches for a substring, an
  array for an element; no other value has a callable \<open>includes\<close>. The message names
  the expression of the one place that calls it, \<open>JSON.parse(...).url.includes\<close>.
\<close>

fun js_includes :: "jsval \<Rightarrow> string \<Rightarrow> error + bool" where
  "js_includes (Str s) pat = Inr (str_includes s pat)"
| "js_includes (Arr xs) pat = Inr (Str pat \<in> set xs)"
| "js_includes Undefined pat =
     Inl (TypeError (''Cannot read properties of undefined (reading '' @ quoted ''includes'' @ '')''))"
| "js_includes Null pat =
     Inl (TypeError (''Cannot read properties of null (reading '' @ quoted ''includes'' @ '')''))"
| "js_includes v pat = Inl (TypeError ''JSON.parse(...).url.includes is not a function'')"

text \<open>
  \<open>v.replace(pat, rep)\<close>: only a string has a callable \<open>replace\<close>. The message names
  the expression of the one place that calls it.
\<close>

fun js_replace :: "jsval \<Rightarrow> string \<Rightarrow> string \<Rightarrow> error + jsval" where
  "js_replace (Str s) pat rep = Inr (Str (str_replace s pat rep))"
| "js_replace Undefined pat rep =
     Inl (TypeError (''Cannot read properties of undefined (reading '' @ quoted ''replace'' @ '')''))"
| "js_replace Null pat rep =
     Inl (TypeError (''Cannot read properties of null (reading '' @ quoted ''replace'' @ '')''))"
| "js_replace v pat rep =
     Inl (TypeError ''contextData.extractedParameters.balance.replace is not a function'')"

section \<open>Numbers\<close>

text \<open>The number of binary digits of \<open>n\<close>: \<open>2 ^ (bitlen n - 1) \<le> n < 2 ^ bitlen n\<close> for \<open>n > 0\<close>.\<close>

function bitlen :: "int \<Rightarrow> int" where
  "bitlen n = (if n \<le> 0 then 0 else 1 + bitlen (n div 2))"
  by pat_completeness auto
termination
  by (relation "measure nat") auto

declare bitlen.simps [simp del]

text \<open>The integer nearest to \<open>n / d\<close>, a tie going to the even one (\<open>0 \<le> n\<close>, \<open>0 < d\<close>).\<close>

definition round_half_even :: "int \<Rightarrow> int \<Rightarrow> int" where
  "round_half_even n d =
     (let q = n div d; r = n mod d
      in if 2 * r < d then q
         else if d < 2 * r then q + 1
         else if even q then q else q + 1)"

text \<open>\<open>\<lfloor>log\<^sub>2 (a / b)\<rfloor>\<close> for \<open>a, b > 0\<close>.\<close>

definition floor_log2 :: "int \<Rightarrow> int \<Rightarrow> int" where
  "floor_log2 a b =
     (let k = bitlen a - bitlen b
      in if (if 0 \<le> k then b * 2 ^ nat k \<le> a else b \<le> a * 2 ^ nat (- k)) then k else k - 1)"

text \<open>
  Rounding the positive rational \<open>a / b\<close> to the nearest double, ties to even: the
  significand has 53 bits, the least exponent of a unit in the last place is \<open>-1074\<close>
  (subnormal numbers), and a result of \<open>2 ^ 1024\<close> or more is an overflow (\<open>None\<close>).
\<close>

definition round_pos :: "int \<Rightarrow> int \<Rightarrow> (int \<times> int) option" where
  "round_pos a b =
     (let e = max (floor_log2 a b - 52) (- 1074);
          m = (if 0 \<le> e then round_half_even a (b * 2 ^ nat e)
               else round_half_even (a * 2 ^ nat (- e)) b)
      in if 971 < e \<or> (e = 971 \<and> m = 2 ^ 53) then None else Some (m, e))"

text \<open>
  The double nearest to the rational \<open>\<plusminus> a / b\<close> (\<open>neg\<close> gives the sign, \<open>0 \<le> a\<close>,
  \<open>0 < b\<close>).
\<close>

definition round_double :: "bool \<Rightarrow> int \<Rightarrow> int \<Rightarrow> double" where
  "round_double neg a b =
     (if a = 0 then (if neg then NegZero else Fin 0 0)
      else case round_pos a b of
        None \<Rightarrow> (if neg then NegInf else PosInf)
      | Some (m, e) \<Rightarrow>
          if m = 0 then (if neg then NegZero else Fin 0 0)
          else Fin (if neg then - m else m) e)"

fun is_negative :: "double \<Rightarrow> bool" where
  "is_negative (Fin m e) = (m < 0)"
| "is_negative NegZero = True"
| "is_negative NegInf = True"
| "is_negative d = False"

fun is_zero :: "double \<Rightarrow> bool" where
  "is_zero (Fin m e) = (m = 0)"
| "is_zero NegZero = True"
| "is_zero d = False"

text \<open>The magnitude of a finite double as a fraction (numerator, denominator).\<close>

fun magnitude :: "double \<Rightarrow> int \<times> int" where
  "magnitude (Fin m e) = (if 0 \<le> e then (\<bar>m\<bar> * 2 ^ nat e, 1) else (\<bar>m\<bar>, 2 ^ nat (- e)))"
| "magnitude d = (0, 1)"

text \<open>The operator \<open>*\<close> on Numbers: the exact product, rounded.\<close>

definition double_mult :: "double \<Rightarrow> double \<Rightarrow> double" where
  "double_mult x y =
     (if x = NaN \<or> y = NaN then NaN
      else if x \<in> {PosInf, NegInf} \<or> y \<in> {PosInf, NegInf} then
        (if is_zero x \<or> is_zero y then NaN
         else if is_negative x \<noteq> is_negative y then NegInf else PosInf)
      else (case (magnitude x, magnitude y) of
              ((a1, b1), (a2, b2)) \<Rightarrow>
                round_double (is_negative x \<noteq> is_negative y) (a1 * a2) (b1 * b2)))"

text \<open>\<open>Math.floor\<close>: the greatest integer below, towards \<open>-\<infinity>\<close>.\<close>

fun Math_floor :: "double \<Rightarrow> double" where
  "Math_floor (Fin m e) = (if 0 \<le> e then Fin m e else Fin (m div 2 ^ nat (- e)) 0)"
| "Math_floor d = d"

text \<open>
  \<open>BigInt(x)\<close> of a Number: a RangeError unless \<open>x\<close> is an integer. The message names
  the number; that of a finite number with a fraction, which \<open>Math.floor\<close> never
  returns, is left without it.
\<close>

fun BigInt :: "double \<Rightarrow> error + int" where
  "BigInt (Fin m e) =
     (if 0 \<le> e then Inr (m * 2 ^ nat e)
      else if 2 ^ nat (- e) dvd m then Inr (m div 2 ^ nat (- e))
      else Inl (RangeError ''The number cannot be converted to a BigInt because it is not an integer''))"
| "BigInt NegZero = Inr 0"
| "BigInt NaN =
     Inl (RangeError ''The number NaN cannot be converted to a BigInt because it is not an integer'')"
| "BigInt PosInf =
     Inl (RangeError ''The number Infinity cannot be converted to a BigInt because it is not an integer'')"
| "BigInt NegInf =
     Inl (RangeError ''The number -Infinity cannot be converted to a BigInt because it is not an integer'')"

text \<open>The literal \<open>1e9\<close>.\<close>

definition lit_1e9 :: double where
  "lit_1e9 = Fin 1000000000 0"

subsection \<open>parseFloat\<close>

definition is_digit :: "char \<Rightarrow> bool" where
  "is_digit c = (48 \<le> (of_char c :: int) \<and> (of_char c :: int) \<le> 57)"

definition digits_val :: "string \<Rightarrow> int" where
  "digits_val ds = foldl (\<lambda>n c. 10 * n + (of_char c - 48)) 0 ds"

text \<open>
  The length of the white space or line terminator at the head of \<open>s\<close>, \<open>0\<close> when there
  is none: TAB, LF, VT, FF, CR, SP, and in UTF-8 U+00A0, U+1680, U+2000 to U+200A,
  U+2028, U+2029, U+202F, U+205F, U+3000 and U+FEFF.
\<close>

definition ws_len :: "string \<Rightarrow> nat" where
  "ws_len s =
     (if take 1 s \<in> set [[CHR 0x09], [CHR 0x0A], [CHR 0x0B], [CHR 0x0C], [CHR 0x0D], [CHR 0x20]] then 1
      else if take 2 s = [CHR 0xC2, CHR 0xA0] then 2
      else if take 3 s \<in> set
         [[CHR 0xE1, CHR 0x9A, CHR 0x80],
          [CHR 0xE2, CHR 0x80, CHR 0x80], [CHR 0xE2, CHR 0x80, CHR 0x81],
          [CHR 0xE2, CHR 0x80, CHR 0x82], [CHR 0xE2, CHR 0x80, CHR 0x83],
          [CHR 0xE2, CHR 0x80, CHR 0x84], [CHR 0xE2, CHR 0x80, CHR 0x85],
          [CHR 0xE2, CHR 0x80, CHR 0x86], [CHR 0xE2, CHR 0x80, CHR 0x87],
          [CHR 0xE2, CHR 0x80, CHR 0x88], [CHR 0xE2, CHR 0x80, CHR 0x89],
          [CHR 0xE2, CHR 0x80, CHR 0x8A], [CHR 0xE2, CHR 0x80, CHR 0xA8],
          [CHR 0xE2, CHR 0x80, CHR 0xA9], [CHR 0xE2, CHR 0x80, CHR 0xAF],
          [CHR 0xE2, CHR 0x81, CHR 0x9F], [CHR 0xE3, CHR 0x80, CHR 0x80],
          [CHR 0xEF, CHR 0xBB, CHR 0xBF]] then 3
      else 0)"

fun trim_start :: "string \<Rightarrow> string" where
  "trim_start [] = []"
| "trim_start (c # cs) =
     (if ws_len (c # cs) = 0 then c # cs else trim_start (drop (ws_len (c # cs) - 1) cs))"

declare trim_start.simps [simp del]

text \<open>The value of an ExponentPart at the head of \<open>s\<close>, \<open>0\<close> when there is none.\<close>

definition parse_exponent :: "string \<Rightarrow> int" where
  "parse_exponent s =
     (case s of
        [] \<Rightarrow> 0
      | c # r \<Rightarrow>
          if c = CHR ''e'' \<or> c = CHR ''E'' then
            (let neg = (take 1 r = ''-'');
                 ds = takeWhile is_digit (if take 1 r = ''-'' \<or> take 1 r = ''+'' then drop 1 r else r)
             in if ds = [] then 0 else if neg then - digits_val ds else digits_val ds)
          else 0)"

text \<open>
  The longest prefix of \<open>s\<close> that is a StrUnsignedDecimalLiteral (\<open>Infinity\<close>, or digits
  with an optional fraction and exponent, or a fraction with an optional exponent), as a
  Number of the sign \<open>neg\<close>; \<open>NaN\<close> when no prefix is one.
\<close>

definition parse_unsigned :: "bool \<Rightarrow> string \<Rightarrow> double" where
  "parse_unsigned neg s =
     (if prefix ''Infinity'' s then (if neg then NegInf else PosInf)
      else
        let ip = takeWhile is_digit s;
            r1 = dropWhile is_digit s;
            dot = (take 1 r1 = ''.'');
            fp = (if dot then takeWhile is_digit (drop 1 r1) else []);
            r2 = (if dot then dropWhile is_digit (drop 1 r1) else r1)
        in if ip = [] \<and> fp = [] then NaN
           else
             let x = parse_exponent r2 - int (length fp);
                 n = digits_val (ip @ fp)
             in if 0 \<le> x then round_double neg (n * 10 ^ nat x) 1
                else round_double neg n (10 ^ nat (- x)))"

text \<open>\<open>parseFloat\<close> of a string.\<close>

definition parseFloat :: "string \<Rightarrow> double" where
  "parseFloat s =
     (let t = trim_start s
      in if take 1 t = ''-'' then parse_unsigned True (drop 1 t)
         else if take 1 t = ''+'' then parse_unsigned False (drop 1 t)
         else parse_unsigned False t)"

section \<open>The environment\<close>

text \<open>
  The built-in functions and the libraries the server calls but does not define, as
  functions of their arguments. \<open>getAssociatedTokenAddress\<close> is called with the mint and
  the wallet of the process only; \<open>sendTransfer\<close> stands for building the transfer
  instruction and the transaction, fetching the latest blockhash and
  \<open>sendAndConfirmTransaction\<close>, and returns the signature.
\<close>

record env =
  decodeURIComponent :: "jsval \<Rightarrow> error + string"
  JSON_parse :: "jsval \<Rightarrow> error + jsval"
  Number_toString :: "double \<Rightarrow> string"
  verifyProof :: "jsval \<Rightarrow> error + bool"
  PublicKey :: "jsval \<Rightarrow> error + string"
  getAssociatedTokenAddress :: "error + string"
  getOrCreateAssociatedTokenAccount :: "string \<Rightarrow> error + string"
  sendTransfer :: "string \<Rightarrow> string \<Rightarrow> int \<Rightarrow> error + string"

text \<open>Sequencing: an exception of the first computation skips the second.\<close>

definition bind_result :: "error + 'a \<Rightarrow> ('a \<Rightarrow> error + 'b) \<Rightarrow> error + 'b" where
  "bind_result r f = (case r of Inl e \<Rightarrow> Inl e | Inr v \<Rightarrow> f v)"

text \<open>The elements of an array joined with commas, the first exception winning.\<close>

fun join_results :: "(error + string) list \<Rightarrow> error + string" where
  "join_results [] = Inr []"
| "join_results [r] = r"
| "join_results (r # rs) =
     bind_result r (\<lambda>s. bind_result (join_results rs) (\<lambda>t. Inr (s @ '','' @ t)))"

text \<open>
  \<open>ToString\<close>, as a template literal and \<open>parseFloat\<close> apply it. An array joins its
  elements, \<open>undefined\<close> and \<open>null\<close> among them giving the empty string. A parsed object
  is \<open>[object Object]\<close>, unless it has an own property \<open>toString\<close>: that one is not
  callable, and the conversion throws.
\<close>

fun ToString :: "env \<Rightarrow> jsval \<Rightarrow> error + string" where
  "ToString env Undefined = Inr ''undefined''"
| "ToString env Null = Inr ''null''"
| "ToString env (Bool b) = Inr (if b then ''true'' else ''false'')"
| "ToString env (Num d) = Inr (Number_toString env d)"
| "ToString env (Str s) = Inr s"
| "ToString env (Arr xs) =
     join_results (map (\<lambda>x. if x = Undefined \<or> x = Null then Inr [] else ToString env x) xs)"
| "ToString env (Obj kvs) =
     (if map_of kvs ''toString'' = None then Inr ''[object Object]''
      else Inl (TypeError ''Cannot convert object to primitive value''))"

section \<open>The server\<close>

text \<open>The calls a handler makes to the functions with an effect, in order.\<close>

datatype call =
    VerifyProof jsval
  | TransferReward jsval jsval
  | GetOrCreateAccount string
  | SendTransfer string string int
  | BroadcastMessage jsval

record response =
  status :: nat
  json :: jsval

datatype platform = Amazon | Flipkart

subsection \<open>getDataFromFlipkart, getDataFromAmazon\<close>

text \<open>\<open>JSON.parse(proof.claimData.context)\<close>.\<close>

definition contextData :: "env \<Rightarrow> jsval \<Rightarrow> error + jsval" where
  "contextData env proof =
     bind_result (get_prop proof ''claimData'') (\<lambda>claimData.
     bind_result (get_prop claimData ''context'') (\<lambda>context.
     JSON_parse env context))"

definition getDataFromFlipkart :: "env \<Rightarrow> jsval \<Rightarrow> call list \<times> (error + jsval \<times> jsval)" where
  "getDataFromFlipkart env proof =
     ([VerifyProof proof],
      bind_result (verifyProof env proof) (\<lambda>isValid.
        if \<not> isValid then Inl (Error ''Invalid proof'')
        else
          bind_result (contextData env proof) (\<lambda>contextData.
          bind_result (get_prop contextData ''extractedParameters'') (\<lambda>extractedParameters.
          bind_result (get_prop extractedParameters ''text'') (\<lambda>amount.
          bind_result (get_prop contextData ''contextMessage'') (\<lambda>address.
          bind_result (ToString env amount) (\<lambda>_.
          bind_result (ToString env address) (\<lambda>_.
          Inr (amount, address)))))))))"

definition getDataFromAmazon :: "env \<Rightarrow> jsval \<Rightarrow> call list \<times> (error + jsval \<times> jsval)" where
  "getDataFromAmazon env proof =
     ([VerifyProof proof],
      bind_result (verifyProof env proof) (\<lambda>isValid.
        if \<not> isValid then Inl (Error ''Invalid proof'')
        else
          bind_result (contextData env proof) (\<lambda>contextData.
          bind_result (get_prop contextData ''extractedParameters'') (\<lambda>extractedParameters.
          bind_result (get_prop extractedParameters ''balance'') (\<lambda>balance.
          bind_result (js_replace balance ''&#x20b9;'' []) (\<lambda>amount.
          bind_result (get_prop contextData ''contextMessage'') (\<lambda>address.
          bind_result (ToString env amount) (\<lambda>_.
          bind_result (ToString env address) (\<lambda>_.
          Inr (amount, address))))))))))"

subsection \<open>transferReward\<close>

text \<open>
  \<open>BigInt(Math.floor(parseFloat(amount) * 1e9))\<close>: \<open>parseFloat\<close> first converts its
  argument to a string. The string is read with correct rounding, whatever the number
  of its digits.
\<close>

definition base_units :: "string \<Rightarrow> error + int" where
  "base_units s = BigInt (Math_floor (double_mult (parseFloat s) lit_1e9))"

definition tokenAmount :: "env \<Rightarrow> jsval \<Rightarrow> error + int" where
  "tokenAmount env amount = bind_result (ToString env amount) base_units"

definition transferReward :: "env \<Rightarrow> jsval \<Rightarrow> jsval \<Rightarrow> call list \<times> (error + jsval)" where
  "transferReward env amount recipientAddress =
     (let called = [TransferReward amount recipientAddress] in
      case bind_result (ToString env amount) (\<lambda>_. ToString env recipientAddress) of
        Inl e \<Rightarrow> (called, Inl e)
      | Inr _ \<Rightarrow>
      case PublicKey env recipientAddress of
        Inl e \<Rightarrow> (called, Inl e)
      | Inr recipientPublicKey \<Rightarrow>
      case getAssociatedTokenAddress env of
        Inl e \<Rightarrow> (called, Inl e)
      | Inr fromTokenAccount \<Rightarrow>
      let called = called @ [GetOrCreateAccount recipientPublicKey] in
      case getOrCreateAssociatedTokenAccount env recipientPublicKey of
        Inl e \<Rightarrow> (called, Inl e)
      | Inr toTokenAccount \<Rightarrow>
      case tokenAmount env amount of
        Inl e \<Rightarrow> (called, Inl e)
      | Inr tokens \<Rightarrow>
      let called = called @ [SendTransfer fromTokenAccount toTokenAccount tokens] in
      case sendTransfer env fromTokenAccount toTokenAccount tokens of
        Inl e \<Rightarrow> (called, Inl e)
      | Inr signature \<Rightarrow>
          (called,
           Inr (Obj [(''success'', Bool True),
                     (''signature'', Str signature),
                     (''transactionUrl'',
                        Str (''https://explorer.solana.com/tx/'' @ signature @ ''?cluster=devnet'')),
                     (''amount'', amount)])))"

subsection \<open>POST /receive-proofs\<close>

text \<open>\<open>JSON.parse(proof.claimData.parameters).url\<close>.\<close>

definition embedded_url :: "env \<Rightarrow> jsval \<Rightarrow> error + jsval" where
  "embedded_url env proof =
     bind_result (get_prop proof ''claimData'') (\<lambda>claimData.
     bind_result (get_prop claimData ''parameters'') (\<lambda>parameters.
     bind_result (JSON_parse env parameters) (\<lambda>params.
     get_prop params ''url'')))"

text \<open>
  The platform of a proof, as the handler determines it: \<open>None\<close> is the branch that
  answers "Unsupported platform".
\<close>

definition classify :: "env \<Rightarrow> jsval \<Rightarrow> error + platform option" where
  "classify env proof =
     bind_result (embedded_url env proof) (\<lambda>url.
     bind_result (js_includes url ''amazon'') (\<lambda>isAmazon.
       if isAmazon then Inr (Some Amazon)
       else
         bind_result (embedded_url env proof) (\<lambda>url'.
         bind_result (js_includes url' ''flipkart'') (\<lambda>isFlipkart.
           if isFlipkart then Inr (Some Flipkart) else Inr None))))"

text \<open>The content of the success notification, a template literal.\<close>

definition success_content :: "env \<Rightarrow> jsval \<Rightarrow> jsval \<Rightarrow> jsval \<Rightarrow> error + string" where
  "success_content env amount address transferResult =
     bind_result (ToString env amount) (\<lambda>a.
     bind_result (ToString env address) (\<lambda>d.
     bind_result (get_prop transferResult ''transactionUrl'') (\<lambda>transactionUrl.
     bind_result (ToString env transactionUrl) (\<lambda>u.
       Inr (''Reward of '' @ a @ '' tokens has been successfully transferred to wallet '' @ d
            @ ''. Transaction URL: '' @ u)))))"

text \<open>\<open>JSON.parse(decodeURIComponent(req.body))\<close>.\<close>

definition parse_body :: "env \<Rightarrow> jsval \<Rightarrow> error + jsval" where
  "parse_body env body =
     bind_result (decodeURIComponent env body) (\<lambda>decodedBody. JSON_parse env (Str decodedBody))"

text \<open>The extraction the handler chooses for a platform.\<close>

definition getData :: "env \<Rightarrow> platform \<Rightarrow> jsval \<Rightarrow> call list \<times> (error + jsval \<times> jsval)" where
  "getData env platform proof =
     (if platform = Amazon then getDataFromAmazon env proof else getDataFromFlipkart env proof)"

text \<open>The \<open>try\<close> block of the handler: the calls made, and the response or the exception.\<close>

definition receive_proofs_try :: "env \<Rightarrow> jsval \<Rightarrow> call list \<times> (error + response)" where
  "receive_proofs_try env body =
     (case parse_body env body of
        Inl e \<Rightarrow> ([], Inl e)
      | Inr proof \<Rightarrow>
      case classify env proof of
        Inl e \<Rightarrow> ([], Inl e)
      | Inr None \<Rightarrow>
          ([], Inr \<lparr>status = 400, json = Obj [(''error'', Str ''Unsupported platform'')]\<rparr>)
      | Inr (Some platform) \<Rightarrow>
      case getData env platform proof of
        (calls, Inl e) \<Rightarrow> (calls, Inl e)
      | (calls, Inr (amount, address)) \<Rightarrow>
      if \<not> truthy amount \<or> \<not> truthy address then
        (calls, Inr \<lparr>status = 400, json = Obj [(''error'', Str ''Missing amount or address in proof'')]\<rparr>)
      else
      case transferReward env amount address of
        (calls', Inl e) \<Rightarrow> (calls @ calls', Inl e)
      | (calls', Inr transferResult) \<Rightarrow>
      case success_content env amount address transferResult of
        Inl e \<Rightarrow> (calls @ calls', Inl e)
      | Inr content \<Rightarrow>
          (calls @ calls' @ [BroadcastMessage (Obj [(''type'', Str ''agent''), (''content'', Str content)])],
           Inr \<lparr>status = 200,
                json = Obj [(''success'', Bool True),
                            (''message'', Str ''Reward processed successfully''),
                            (''transaction'', transferResult)]\<rparr>))"

text \<open>The handler: the \<open>catch\<close> block broadcasts the error and answers 500.\<close>

definition receive_proofs :: "env \<Rightarrow> jsval \<Rightarrow> call list \<times> response" where
  "receive_proofs env body =
     (case receive_proofs_try env body of
        (calls, Inr res) \<Rightarrow> (calls, res)
      | (calls, Inl error) \<Rightarrow>
          (calls @ [BroadcastMessage
                      (Obj [(''type'', Str ''error''),
                            (''content'', Str (''Error processing reward: '' @ error_message error))])],
           \<lparr>status = 500,
            json = Obj [(''success'', Bool False), (''error'', Str (error_message error))]\<rparr>))"

subsection \<open>POST /transfer-tokens\<close>



subsection \<open>broadcastMessage\<close>

text \<open>
  An observer connection: its \<open>readyState\<close> (\<open>1\<close> is OPEN) and the payloads sent to it
  so far. \<open>wss\<close> is \<open>None\<close> until the servers are started; \<open>wss.clients\<close> is the list of
  the connections in the order they were made. \<open>send\<close> on an open connection appends the
  payload, \<open>JSON.stringify(message)\<close>, and does not throw.
\<close>

record client =
  readyState :: nat
  sent :: "string list"

definition broadcastMessage :: "(jsval \<Rightarrow> string) \<Rightarrow> client list option \<Rightarrow> jsval \<Rightarrow> client list option" where
  "broadcastMessage JSON_stringify wss message =
     (case wss of
        None \<Rightarrow> None
      | Some clients \<Rightarrow>
          Some (map (\<lambda>client.
                  if readyState client = 1
                  then client\<lparr>sent := sent client @ [JSON_stringify message]\<rparr>
                  else client) clients))"

subsection \<open>The conversion as the specification states it\<close>

text \<open>
  A decimal amount string: digits, then optionally a point and more digits. Its value is
  \<open>decimal_digits s / 10 ^ decimal_scale s\<close>: all its digits as one integer, over ten to
  the number of digits after the point.
\<close>

definition decimal_string :: "string \<Rightarrow> bool" where
  "decimal_string s =
     (let ip = takeWhile (\<lambda>c. c \<noteq> CHR ''.'') s;
          fp = drop 1 (dropWhile (\<lambda>c. c \<noteq> CHR ''.'') s)
      in ip \<noteq> [] \<and> list_all is_digit ip \<and> list_all is_digit fp
         \<and> (CHR ''.'' \<in> set s \<longrightarrow> fp \<noteq> []))"

definition decimal_digits :: "string \<Rightarrow> int" where
  "decimal_digits s = digits_val (filter (\<lambda>c. c \<noteq> CHR ''.'') s)"

definition decimal_scale :: "string \<Rightarrow> nat" where
  "decimal_scale s = length (drop 1 (dropWhile (\<lambda>c. c \<noteq> CHR ''.'') s))"

text \<open>The specification's \<open>floor(amount * 10^9)\<close>, over the rationals.\<close>

definition spec_base_units :: "string \<Rightarrow> int" where
  "spec_base_units s = \<lfloor>(of_int (decimal_digits s) / 10 ^ decimal_scale s) * 10 ^ 9 :: rat\<rfloor>"

text \<open>The calls of the Transfer Engine: \<open>transferReward\<close> and what it does on the ledger.\<close>

fun is_transfer :: "call \<Rightarrow> bool" where
  "is_transfer (TransferReward amount address) = True"
| "is_transfer (GetOrCreateAccount k) = True"
| "is_transfer (SendTransfer a b n) = True"
| "is_transfer c = False"

section \<open>A sample environment\<close>

text \<open>
  An environment to run the handlers in: \<open>JSON.parse\<close> is a table of the texts that
  occur (any other text is not JSON), \<open>decodeURIComponent\<close> is the identity on the
  bodies, which hold no escape, every proof verifies, and the ledger accepts every
  address and transfer. Numbers do not occur in the sample data.
\<close>

definition sample_proof :: "string \<Rightarrow> string \<Rightarrow> jsval" where
  "sample_proof parameters context =
     Obj [(''claimData'', Obj [(''parameters'', Str parameters), (''context'', Str context)])]"

definition amazon_parameters :: string where
  \<open>amazon_parameters = ''{"url":"https://www.amazon.in/gp/balance"}''\<close>

definition flipkart_parameters :: string where
  \<open>flipkart_parameters = ''{"url":"https://www.flipkart.com/supercoin"}''\<close>

definition other_parameters :: string where
  \<open>other_parameters = ''{"url":"https://www.Amazon.in/Flipkart"}''\<close>

definition both_parameters :: string where
  \<open>both_parameters = ''{"url":"https://www.flipkart.com/?ref=amazon"}''\<close>

definition entity_context :: string where
  \<open>entity_context = ''{"extractedParameters":{"balance":"&#x20b9;250"},"contextMessage":"ADDR1"}''\<close>

definition suffix_context :: string where
  \<open>suffix_context = ''{"extractedParameters":{"balance":"1000&#x20b9;"},"contextMessage":"ADDR1"}''\<close>

definition no_address_context :: string where
  \<open>no_address_context = ''{"extractedParameters":{"balance":"&#x20b9;250"}}''\<close>

text \<open>The rupee sign U+20B9 itself, in UTF-8, before \<open>250\<close>.\<close>

definition rupee_250 :: string where
  "rupee_250 = [CHR 0xE2, CHR 0x82, CHR 0xB9] @ ''250''"

definition rupee_context :: string where
  \<open>rupee_context = ''{"extractedParameters":{"balance":"'' @ rupee_250 @ ''"},"contextMessage":"ADDR1"}''\<close>

definition sample_context :: "string \<Rightarrow> jsval option \<Rightarrow> jsval" where
  "sample_context balance address =
     Obj ((''extractedParameters'', Obj [(''balance'', Str balance)])
          # (case address of None \<Rightarrow> [] | Some a \<Rightarrow> [(''contextMessage'', a)]))"

definition sample_table :: "(jsval \<times> jsval) list" where
  "sample_table =
     [(Str ''amazon-entity'', sample_proof amazon_parameters entity_context),
      (Str ''amazon-rupee'', sample_proof amazon_parameters rupee_context),
      (Str ''amazon-suffix'', sample_proof amazon_parameters suffix_context),
      (Str ''amazon-no-address'', sample_proof amazon_parameters no_address_context),
      (Str ''flipkart-entity'', sample_proof flipkart_parameters entity_context),
      (Str ''other-entity'', sample_proof other_parameters entity_context),
      (Str ''both-entity'', sample_proof both_parameters entity_context),
      (Str amazon_parameters, Obj [(''url'', Str ''https://www.amazon.in/gp/balance'')]),
      (Str flipkart_parameters, Obj [(''url'', Str ''https://www.flipkart.com/supercoin'')]),
      (Str other_parameters, Obj [(''url'', Str ''https://www.Amazon.in/Flipkart'')]),
      (Str both_parameters, Obj [(''url'', Str ''https://www.flipkart.com/?ref=amazon'')]),
      (Str entity_context, sample_context ''&#x20b9;250'' (Some (Str ''ADDR1''))),
      (Str rupee_context, sample_context rupee_250 (Some (Str ''ADDR1''))),
      (Str suffix_context, sample_context ''1000&#x20b9;'' (Some (Str ''ADDR1''))),
      (Str no_address_context, sample_context ''&#x20b9;250'' None)]"

definition sample_env :: env where
  "sample_env =
     \<lparr>decodeURIComponent = (\<lambda>v. case v of Str s \<Rightarrow> Inr s | _ \<Rightarrow> Inr ''[object Object]''),
      JSON_parse = (\<lambda>v. case map_of sample_table v of
                            None \<Rightarrow> Inl (SyntaxError ''Unexpected token'')
                          | Some r \<Rightarrow> Inr r),
      Number_toString = (\<lambda>d. ''NaN''),
      verifyProof = (\<lambda>proof. Inr True),
      PublicKey = (\<lambda>v. case v of Str s \<Rightarrow> Inr s | _ \<Rightarrow> Inl (Error ''Invalid public key input'')),
      getAssociatedTokenAddress = Inr ''SERVER-ATA'',
      getOrCreateAssociatedTokenAccount = (\<lambda>k. Inr (k @ ''-ATA'')),
      sendTransfer = (\<lambda>a b n. Inr ''SIG1'')\<rparr>"

section \<open>Properties\<close>

lemma str_includes_iff: "str_includes s pat \<longleftrightarrow> (\<exists>a b. s = a @ pat @ b)"
proof (induction s)
  case Nil
  then show ?case by auto
next
  case (Cons c cs)
  show ?case
  proof
    assume "str_includes (c # cs) pat"
    then consider "prefix pat (c # cs)" | "str_includes cs pat" by auto
    then show "\<exists>a b. c # cs = a @ pat @ b"
    proof cases
      case 1
      then obtain b where "c # cs = pat @ b" by (auto simp: prefix_def)
      then have "c # cs = [] @ pat @ b" by simp
      then show ?thesis by blast
    next
      case 2
      with Cons.IH obtain a b where "cs = a @ pat @ b" by blast
      then have "c # cs = (c # a) @ pat @ b" by simp
      then show ?thesis by blast
    qed
  next
    assume "\<exists>a b. c # cs = a @ pat @ b"
    then obtain a b where ab: "c # cs = a @ pat @ b" by blast
    show "str_includes (c # cs) pat"
    proof (cases a)
      case Nil
      with ab have "prefix pat (c # cs)" by (simp add: prefix_def)
      then show ?thesis by simp
    next
      case (Cons x a')
      with ab have "cs = a' @ pat @ b" by simp
      with Cons.IH have "str_includes cs pat" by blast
      then show ?thesis by simp
    qed
  qed
qed

lemma bind_result_Inl [simp]: "bind_result (Inl e) f = Inl e"
  by (simp add: bind_result_def)

lemma bind_result_Inr [simp]: "bind_result (Inr v) f = f v"
  by (simp add: bind_result_def)

lemma str_includes_sublist: "str_includes s pat \<longleftrightarrow> sublist pat s"
  by (simp add: str_includes_iff sublist_def)

subsection \<open>Classification by the embedded URL\<close>

text \<open>
  C3. The handler classifies a proof by its embedded request URL, a string: a URL that
  contains \<open>amazon\<close> (in this case of the letters) and not \<open>flipkart\<close> is Amazon, one
  that contains \<open>flipkart\<close> and not \<open>amazon\<close> is Flipkart, and for one that contains
  neither the request is answered 400 "Unsupported platform" with no call made at all:
  no verification, no transfer, no broadcast.
\<close>

theorem url_classification:
  assumes "parse_body env body = Inr proof" and "embedded_url env proof = Inr (Str url)"
  shows "(sublist ''amazon'' url \<and> \<not> sublist ''flipkart'' url \<longrightarrow>
            classify env proof = Inr (Some Amazon))
       \<and> (sublist ''flipkart'' url \<and> \<not> sublist ''amazon'' url \<longrightarrow>
            classify env proof = Inr (Some Flipkart))
       \<and> (\<not> sublist ''amazon'' url \<and> \<not> sublist ''flipkart'' url \<longrightarrow>
            classify env proof = Inr None
            \<and> receive_proofs env body =
                ([], \<lparr>status = 400, json = Obj [(''error'', Str ''Unsupported platform'')]\<rparr>))"
  using assms
  by (simp add: classify_def receive_proofs_def receive_proofs_try_def str_includes_sublist)

theorem url_classification_witness:
  "classify sample_env (sample_proof amazon_parameters entity_context) = Inr (Some Amazon)
   \<and> classify sample_env (sample_proof flipkart_parameters entity_context) = Inr (Some Flipkart)
   \<and> classify sample_env (sample_proof other_parameters entity_context) = Inr None
   \<and> receive_proofs sample_env (Str ''other-entity'') =
        ([], \<lparr>status = 400, json = Obj [(''error'', Str ''Unsupported platform'')]\<rparr>)"
proof -
  have b1: "parse_body sample_env (Str ''amazon-entity'') = Inr (sample_proof amazon_parameters entity_context)"
    by code_simp
  have u1: "embedded_url sample_env (sample_proof amazon_parameters entity_context)
              = Inr (Str ''https://www.amazon.in/gp/balance'')"
    by code_simp
  have s1: "sublist ''amazon'' ''https://www.amazon.in/gp/balance''
            \<and> \<not> sublist ''flipkart'' ''https://www.amazon.in/gp/balance''"
    by code_simp
  have b2: "parse_body sample_env (Str ''flipkart-entity'') = Inr (sample_proof flipkart_parameters entity_context)"
    by code_simp
  have u2: "embedded_url sample_env (sample_proof flipkart_parameters entity_context)
              = Inr (Str ''https://www.flipkart.com/supercoin'')"
    by code_simp
  have s2: "sublist ''flipkart'' ''https://www.flipkart.com/supercoin''
            \<and> \<not> sublist ''amazon'' ''https://www.flipkart.com/supercoin''"
    by code_simp
  have b3: "parse_body sample_env (Str ''other-entity'') = Inr (sample_proof other_parameters entity_context)"
    by code_simp
  have u3: "embedded_url sample_env (sample_proof other_parameters entity_context)
              = Inr (Str ''https://www.Amazon.in/Flipkart'')"
    by code_simp
  have s3: "\<not> sublist ''amazon'' ''https://www.Amazon.in/Flipkart''
            \<and> \<not> sublist ''flipkart'' ''https://www.Amazon.in/Flipkart''"
    by code_simp
  from url_classification [OF b1 u1] url_classification [OF b2 u2] url_classification [OF b3 u3]
    s1 s2 s3
  show ?thesis by blast
qed

text \<open>
  C10. A URL that contains both \<open>amazon\<close> and \<open>flipkart\<close> is Amazon: the handler
  tests for \<open>amazon\<close> first.
\<close>

theorem both_platforms_amazon:
  assumes "embedded_url env proof = Inr (Str url)"
    and "sublist ''amazon'' url" and "sublist ''flipkart'' url"
  shows "classify env proof = Inr (Some Amazon)"
  using assms by (simp add: classify_def str_includes_sublist)

theorem both_platforms_amazon_witness:
  "embedded_url sample_env (sample_proof both_parameters entity_context)
     = Inr (Str ''https://www.flipkart.com/?ref=amazon'')
   \<and> sublist ''amazon'' ''https://www.flipkart.com/?ref=amazon''
   \<and> sublist ''flipkart'' ''https://www.flipkart.com/?ref=amazon''
   \<and> classify sample_env (sample_proof both_parameters entity_context) = Inr (Some Amazon)"
proof -
  have u: "embedded_url sample_env (sample_proof both_parameters entity_context)
     = Inr (Str ''https://www.flipkart.com/?ref=amazon'')"
    by code_simp
  have a: "sublist ''amazon'' ''https://www.flipkart.com/?ref=amazon''"
    by code_simp
  have f: "sublist ''flipkart'' ''https://www.flipkart.com/?ref=amazon''"
    by code_simp
  from u a f both_platforms_amazon [OF u a f] show ?thesis by blast
qed

subsection \<open>Broadcasting\<close>

text \<open>
  C9. \<open>broadcastMessage\<close> sends the message to exactly the connections whose
  \<open>readyState\<close> is 1 (OPEN): each of them gets the payload appended to what was sent to
  it, every other connection is left as it is, and no connection is removed (the list of
  the connections keeps its length and order). Before the servers are started there is
  no connection and nothing is sent.
\<close>

theorem broadcast_open_only:
  "broadcastMessage JSON_stringify None message = None
   \<and> (\<exists>clients'. broadcastMessage JSON_stringify (Some clients) message = Some clients'
        \<and> length clients' = length clients
        \<and> (\<forall>i < length clients.
              (readyState (clients ! i) = 1 \<longrightarrow>
                 clients' ! i = (clients ! i)\<lparr>sent := sent (clients ! i) @ [JSON_stringify message]\<rparr>)
            \<and> (readyState (clients ! i) \<noteq> 1 \<longrightarrow> clients' ! i = clients ! i)))"
  by (simp add: broadcastMessage_def)

theorem broadcast_open_only_witness:
  "broadcastMessage (\<lambda>m. ''payload'') (Some [\<lparr>readyState = 1, sent = []\<rparr>, \<lparr>readyState = 0, sent = []\<rparr>,
       \<lparr>readyState = 3, sent = [''old'']\<rparr>, \<lparr>readyState = 1, sent = [''old'']\<rparr>]) Null
   = Some [\<lparr>readyState = 1, sent = [''payload'']\<rparr>, \<lparr>readyState = 0, sent = []\<rparr>,
       \<lparr>readyState = 3, sent = [''old'']\<rparr>, \<lparr>readyState = 1, sent = [''old'', ''payload'']\<rparr>]"
proof -
  let ?cs = "[\<lparr>readyState = 1, sent = []\<rparr>, \<lparr>readyState = 0, sent = []\<rparr>,
       \<lparr>readyState = 3, sent = [''old'']\<rparr>, \<lparr>readyState = 1, sent = [''old'']\<rparr>] :: client list"
  from broadcast_open_only [of "\<lambda>m. ''payload''" Null ?cs]
  obtain cs' where r: "broadcastMessage (\<lambda>m. ''payload'') (Some ?cs) Null = Some cs'"
    and l: "length cs' = length ?cs"
    and e: "\<forall>i < length ?cs.
              (readyState (?cs ! i) = 1 \<longrightarrow> cs' ! i = (?cs ! i)\<lparr>sent := sent (?cs ! i) @ [''payload'']\<rparr>)
            \<and> (readyState (?cs ! i) \<noteq> 1 \<longrightarrow> cs' ! i = ?cs ! i)"
    by blast
  from e have "cs' ! 0 = \<lparr>readyState = 1, sent = [''payload'']\<rparr>"
    "cs' ! 1 = \<lparr>readyState = 0, sent = []\<rparr>"
    "cs' ! 2 = \<lparr>readyState = 3, sent = [''old'']\<rparr>"
    "cs' ! 3 = \<lparr>readyState = 1, sent = [''old'', ''payload'']\<rparr>"
    by (simp_all add: nth_Cons')
  with l have "cs' = [\<lparr>readyState = 1, sent = [''payload'']\<rparr>, \<lparr>readyState = 0, sent = []\<rparr>,
       \<lparr>readyState = 3, sent = [''old'']\<rparr>, \<lparr>readyState = 1, sent = [''old'', ''payload'']\<rparr>]"
    by (intro nth_equalityI) (auto simp: nth_Cons' less_Suc_eq numeral_2_eq_2 numeral_3_eq_3)
  with r show ?thesis by simp
qed

subsection \<open>Amount extraction\<close>

lemma str_replace_prefix: "str_replace (pat @ rest) pat rep = rep @ rest"
proof (cases "pat @ rest")
  case Nil
  then show ?thesis by simp
next
  case (Cons a list)
  have "prefix pat (pat @ rest)" by simp
  moreover have "drop (length pat) (pat @ rest) = rest" by simp
  ultimately show ?thesis unfolding Cons by simp
qed

lemma str_replace_absent: "\<not> sublist pat s \<Longrightarrow> str_replace s pat rep = s"
proof (induction s)
  case Nil
  then show ?case by auto
next
  case (Cons c cs)
  then show ?case by (auto simp: sublist_Cons_right)
qed

lemma str_replace_first:
  assumes "\<not> sublist pat (butlast (pre @ pat))"
  shows "str_replace (pre @ pat @ post) pat rep = pre @ rep @ post"
  using assms
proof (induction pre)
  case Nil
  then show ?case by (simp add: str_replace_prefix)
next
  case (Cons c pre)
  have ne: "pre @ pat \<noteq> []"
    using Cons.prems by auto
  from Cons.prems ne have no: "\<not> sublist pat (c # butlast (pre @ pat))"
    by (auto split: if_splits)
  then have "\<not> sublist pat (butlast (pre @ pat))"
    by (auto simp: sublist_Cons_right)
  then have IH: "str_replace (pre @ pat @ post) pat rep = pre @ rep @ post"
    by (rule Cons.IH)
  have "\<not> prefix pat (c # pre @ pat @ post)"
  proof
    assume p: "prefix pat (c # pre @ pat @ post)"
    have "length pat \<le> length (c # butlast (pre @ pat))"
      by simp
    moreover have "c # pre @ pat @ post = (c # butlast (pre @ pat)) @ (last (pre @ pat) # post)"
      using ne by (metis append.assoc append_Cons append_Nil append_butlast_last_id)
    ultimately have "prefix pat (c # butlast (pre @ pat))"
      using p by (metis prefix_length_prefix prefixI)
    then show False using no by (auto simp: sublist_Cons_right)
  qed
  with IH show ?case by simp
qed

text \<open>
  C6, as the code has it. For an Amazon proof that verifies, whose context gives a string
  as the balance, the amount is the balance with the first occurrence of the entity
  \<open>&#x20b9;\<close> removed, wherever it stands, and nothing else: a balance that starts with
  the entity loses that prefix (\<open>&#x20b9;1000\<close> gives \<open>1000\<close>), and a balance that does
  not contain the entity is returned unchanged.
\<close>

theorem amazon_amount_extraction:
  assumes "verifyProof env proof = Inr True"
    and "contextData env proof = Inr ctx"
    and "get_prop ctx ''extractedParameters'' = Inr ep"
    and "get_prop ep ''balance'' = Inr (Str balance)"
    and "get_prop ctx ''contextMessage'' = Inr address"
    and "ToString env address = Inr a"
  shows "\<exists>amount. snd (getDataFromAmazon env proof) = Inr (Str amount, address)
      \<and> amount = str_replace balance ''&#x20b9;'' []
      \<and> (\<forall>rest. balance = ''&#x20b9;'' @ rest \<longrightarrow> amount = rest)
      \<and> (\<not> sublist ''&#x20b9;'' balance \<longrightarrow> amount = balance)
      \<and> (\<forall>pre post. balance = pre @ ''&#x20b9;'' @ post
             \<and> \<not> sublist ''&#x20b9;'' (butlast (pre @ ''&#x20b9;'')) \<longrightarrow> amount = pre @ post)"
proof -
  have "snd (getDataFromAmazon env proof) = Inr (Str (str_replace balance ''&#x20b9;'' []), address)"
    using assms by (simp add: getDataFromAmazon_def)
  moreover have "\<forall>rest. balance = ''&#x20b9;'' @ rest \<longrightarrow> str_replace balance ''&#x20b9;'' [] = rest"
    using str_replace_prefix [of "''&#x20b9;''" _ "[]"] by auto
  moreover have "\<not> sublist ''&#x20b9;'' balance \<longrightarrow> str_replace balance ''&#x20b9;'' [] = balance"
    by (simp add: str_replace_absent)
  moreover have "\<forall>pre post. balance = pre @ ''&#x20b9;'' @ post
             \<and> \<not> sublist ''&#x20b9;'' (butlast (pre @ ''&#x20b9;''))
          \<longrightarrow> str_replace balance ''&#x20b9;'' [] = pre @ post"
    using str_replace_first [of "''&#x20b9;''" _ _ "[]"] by auto
  ultimately show ?thesis by blast
qed

theorem amazon_amount_extraction_witness:
  "snd (getDataFromAmazon sample_env (sample_proof amazon_parameters entity_context))
     = Inr (Str ''250'', Str ''ADDR1'')
   \<and> snd (getDataFromAmazon sample_env (sample_proof amazon_parameters rupee_context))
     = Inr (Str rupee_250, Str ''ADDR1'')
   \<and> snd (getDataFromAmazon sample_env (sample_proof amazon_parameters suffix_context))
     = Inr (Str ''1000'', Str ''ADDR1'')"
proof -
  let ?P = "\<lambda>c. sample_proof amazon_parameters c"
  let ?C = "\<lambda>b. sample_context b (Some (Str ''ADDR1''))"
  have v: "verifyProof sample_env p = Inr True" for p
    by (simp add: sample_env_def)
  have e: "get_prop (?C b) ''extractedParameters'' = Inr (Obj [(''balance'', Str b)])" for b
    by (simp add: sample_context_def)
  have b: "get_prop (Obj [(''balance'', Str b)]) ''balance'' = Inr (Str b)" for b
    by simp
  have m: "get_prop (?C b) ''contextMessage'' = Inr (Str ''ADDR1'')" for b
    by (simp add: sample_context_def)
  have t: "ToString sample_env (Str ''ADDR1'') = Inr ''ADDR1''"
    by simp
  have c1: "contextData sample_env (?P entity_context) = Inr (?C ''&#x20b9;250'')"
    by code_simp
  have c2: "contextData sample_env (?P rupee_context) = Inr (?C rupee_250)"
    by code_simp
  have c3: "contextData sample_env (?P suffix_context) = Inr (?C ''1000&#x20b9;'')"
    by code_simp
  from amazon_amount_extraction [OF v c1 e b m t]
  obtain a1 where r1: "snd (getDataFromAmazon sample_env (?P entity_context)) = Inr (Str a1, Str ''ADDR1'')"
    and "\<forall>rest. ''&#x20b9;250'' = ''&#x20b9;'' @ rest \<longrightarrow> a1 = rest"
    by blast
  then have "''&#x20b9;250'' = ''&#x20b9;'' @ ''250'' \<longrightarrow> a1 = ''250''"
    by blast
  then have a1: "a1 = ''250''" by simp
  have n2: "\<not> sublist ''&#x20b9;'' rupee_250"
    by code_simp
  from amazon_amount_extraction [OF v c2 e b m t]
  obtain a2 where r2: "snd (getDataFromAmazon sample_env (?P rupee_context)) = Inr (Str a2, Str ''ADDR1'')"
    and "\<not> sublist ''&#x20b9;'' rupee_250 \<longrightarrow> a2 = rupee_250"
    by blast
  with n2 have a2: "a2 = rupee_250" by blast
  have n3: "''1000&#x20b9;'' = ''1000'' @ ''&#x20b9;'' @ []
            \<and> \<not> sublist ''&#x20b9;'' (butlast (''1000'' @ ''&#x20b9;''))"
    by code_simp
  from amazon_amount_extraction [OF v c3 e b m t]
  obtain a3 where r3: "snd (getDataFromAmazon sample_env (?P suffix_context)) = Inr (Str a3, Str ''ADDR1'')"
    and "\<forall>pre post. ''1000&#x20b9;'' = pre @ ''&#x20b9;'' @ post
             \<and> \<not> sublist ''&#x20b9;'' (butlast (pre @ ''&#x20b9;'')) \<longrightarrow> a3 = pre @ post"
    by blast
  with n3 have "a3 = ''1000'' @ []" by blast
  then have a3: "a3 = ''1000''" by simp
  from r1 r2 r3 a1 a2 a3 show ?thesis by simp
qed

text \<open>
  The balance \<open>1000&#x20b9;\<close> does not start with the entity, and is not returned
  unchanged: the amount is \<open>1000\<close>.
\<close>

theorem amazon_amount_extraction_counterexample:
  "contextData sample_env (sample_proof amazon_parameters suffix_context)
     = Inr (sample_context ''1000&#x20b9;'' (Some (Str ''ADDR1'')))
   \<and> \<not> prefix ''&#x20b9;'' ''1000&#x20b9;''
   \<and> snd (getDataFromAmazon sample_env (sample_proof amazon_parameters suffix_context))
     = Inr (Str ''1000'', Str ''ADDR1'')"
  by code_simp

subsection \<open>The handler of /receive-proofs\<close>

text \<open>
  C4, as the code has it. When the body cannot be decoded (\<open>decodeURIComponent\<close> or
  \<open>JSON.parse\<close> throws), the handler makes no call but the broadcast of the error, so it
  stops before the verification, and answers 500 with the message of the exception.
\<close>

theorem undecodable_body:
  assumes "parse_body env body = Inl e"
  shows "receive_proofs env body =
           ([BroadcastMessage
               (Obj [(''type'', Str ''error''),
                     (''content'', Str (''Error processing reward: '' @ error_message e))])],
            \<lparr>status = 500,
             json = Obj [(''success'', Bool False), (''error'', Str (error_message e))]\<rparr>)"
  using assms by (simp add: receive_proofs_def receive_proofs_try_def)

theorem undecodable_body_witness:
  \<open>receive_proofs sample_env (Str ''{"claimData":'') =
     ([BroadcastMessage
         (Obj [(''type'', Str ''error''),
               (''content'', Str ''Error processing reward: Unexpected token'')])],
      \<lparr>status = 500,
       json = Obj [(''success'', Bool False), (''error'', Str ''Unexpected token'')]\<rparr>)\<close>
proof -
  have \<open>parse_body sample_env (Str ''{"claimData":'') = Inl (SyntaxError ''Unexpected token'')\<close>
    by code_simp
  from undecodable_body [OF this] show ?thesis by simp
qed

text \<open>A body that is not JSON is answered 500, not 400.\<close>

theorem undecodable_body_counterexample:
  \<open>parse_body sample_env (Str ''{"claimData":'') = Inl (SyntaxError ''Unexpected token'')
   \<and> status (snd (receive_proofs sample_env (Str ''{"claimData":''))) = 500\<close>
  by code_simp

lemma getData_calls: "fst (getData env platform proof) = [VerifyProof proof]"
  by (simp add: getData_def getDataFromAmazon_def getDataFromFlipkart_def)

lemma getData_invalid:
  "verifyProof env proof = Inr False \<Longrightarrow>
   getData env platform proof = ([VerifyProof proof], Inl (Error ''Invalid proof''))"
  by (simp add: getData_def getDataFromAmazon_def getDataFromFlipkart_def)

text \<open>
  C2. When the verification of the proof of a request returns false, the handler never
  calls the Transfer Engine (neither \<open>transferReward\<close> nor anything it does on the
  ledger), and the response is a rejection, 400 or 500: for a proof of a supported
  platform the verification is reached, and the response is 500 "Invalid proof", after
  the one broadcast of that error.
\<close>

theorem invalid_proof_no_transfer:
  assumes "\<forall>proof. parse_body env body = Inr proof \<longrightarrow> verifyProof env proof = Inr False"
  shows "filter is_transfer (fst (receive_proofs env body)) = []
       \<and> status (snd (receive_proofs env body)) \<in> {400, 500}
       \<and> (\<forall>proof platform.
            parse_body env body = Inr proof \<and> classify env proof = Inr (Some platform) \<longrightarrow>
            receive_proofs env body =
              ([VerifyProof proof,
                BroadcastMessage
                  (Obj [(''type'', Str ''error''),
                        (''content'', Str ''Error processing reward: Invalid proof'')])],
               \<lparr>status = 500,
                json = Obj [(''success'', Bool False), (''error'', Str ''Invalid proof'')]\<rparr>))"
proof (cases "parse_body env body")
  case (Inl e)
  then show ?thesis
    by (simp add: receive_proofs_def receive_proofs_try_def)
next
  case (Inr p)
  note pb = this
  with assms have inv: "verifyProof env p = Inr False" by simp
  show ?thesis
  proof (cases "classify env p")
    case (Inl e)
    with pb show ?thesis
      by (simp add: receive_proofs_def receive_proofs_try_def)
  next
    case (Inr r)
    note cl = this
    show ?thesis
    proof (cases r)
      case None
      with pb cl show ?thesis
        by (simp add: receive_proofs_def receive_proofs_try_def)
    next
      case (Some platform)
      with pb cl getData_invalid [OF inv, of platform] show ?thesis
        by (simp add: receive_proofs_def receive_proofs_try_def)
    qed
  qed
qed

theorem invalid_proof_no_transfer_witness:
  "receive_proofs (sample_env\<lparr>verifyProof := \<lambda>p. Inr False\<rparr>) (Str ''amazon-entity'') =
     ([VerifyProof (sample_proof amazon_parameters entity_context),
       BroadcastMessage
         (Obj [(''type'', Str ''error''),
               (''content'', Str ''Error processing reward: Invalid proof'')])],
      \<lparr>status = 500,
       json = Obj [(''success'', Bool False), (''error'', Str ''Invalid proof'')]\<rparr>)"
proof -
  let ?env = "sample_env\<lparr>verifyProof := \<lambda>p. Inr False\<rparr>"
  have h: "\<forall>proof. parse_body ?env (Str ''amazon-entity'') = Inr proof
             \<longrightarrow> verifyProof ?env proof = Inr False"
    by simp
  have p: "parse_body ?env (Str ''amazon-entity'') = Inr (sample_proof amazon_parameters entity_context)"
    by code_simp
  have c: "classify ?env (sample_proof amazon_parameters entity_context) = Inr (Some Amazon)"
    by code_simp
  from invalid_proof_no_transfer [OF h] p c show ?thesis by blast
qed

text \<open>
  C7. When the classification and the extraction succeed and the amount or the address
  is missing (\<open>undefined\<close>, that is absent, \<open>null\<close>, the empty string or any other
  falsy value), the handler answers 400 and the verification is the only call made: the
  Transfer Engine is not invoked.
\<close>

theorem missing_fields_rejected:
  assumes "parse_body env body = Inr proof"
    and "classify env proof = Inr (Some platform)"
    and "snd (getData env platform proof) = Inr (amount, address)"
    and "\<not> truthy amount \<or> \<not> truthy address"
  shows "receive_proofs env body =
           ([VerifyProof proof],
            \<lparr>status = 400, json = Obj [(''error'', Str ''Missing amount or address in proof'')]\<rparr>)"
proof -
  from assms(3) getData_calls [of env platform "proof"]
  have "getData env platform proof = ([VerifyProof proof], Inr (amount, address))"
    by (cases "getData env platform proof") simp
  with assms(1,2,4) show ?thesis
    by (auto simp: receive_proofs_def receive_proofs_try_def)
qed

theorem missing_fields_rejected_witness:
  "receive_proofs sample_env (Str ''amazon-no-address'') =
     ([VerifyProof (sample_proof amazon_parameters no_address_context)],
      \<lparr>status = 400, json = Obj [(''error'', Str ''Missing amount or address in proof'')]\<rparr>)"
proof -
  have p: "parse_body sample_env (Str ''amazon-no-address'')
             = Inr (sample_proof amazon_parameters no_address_context)"
    by code_simp
  have c: "classify sample_env (sample_proof amazon_parameters no_address_context) = Inr (Some Amazon)"
    by code_simp
  have g: "snd (getData sample_env Amazon (sample_proof amazon_parameters no_address_context))
             = Inr (Str ''250'', Undefined)"
    by code_simp
  have t: "\<not> truthy (Str ''250'') \<or> \<not> truthy Undefined"
    by simp
  from missing_fields_rejected [OF p c g t] show ?thesis .
qed

subsection \<open>The handler of /transfer-tokens\<close>



lemma transferReward_calls:
  "\<exists>rest. fst (transferReward env amount address) = TransferReward amount address # rest
     \<and> (\<forall>c \<in> set rest. is_transfer c)"
  by (auto simp: transferReward_def Let_def split: sum.splits)






subsection \<open>Scenario A\<close>

lemma classify_amazon:
  "embedded_url env proof = Inr (Str url) \<Longrightarrow> sublist ''amazon'' url \<Longrightarrow>
   classify env proof = Inr (Some Amazon)"
  by (simp add: classify_def str_includes_sublist)

lemma base_units_250: "base_units ''250'' = Inr 250000000000"
  by code_simp

text \<open>
  With the rupee sign as the HTML entity the extraction gives \<open>250\<close>, and
  \<open>transferReward\<close> is called with it.
\<close>

lemma entity_balance_transfer:
  assumes "parse_body env body = Inr proof"
    and "embedded_url env proof = Inr (Str url)" and "sublist ''amazon'' url"
    and "verifyProof env proof = Inr True"
    and "contextData env proof = Inr ctx"
    and "get_prop ctx ''extractedParameters'' = Inr ep"
    and "get_prop ep ''balance'' = Inr (Str ''&#x20b9;250'')"
    and "get_prop ctx ''contextMessage'' = Inr (Str ''ADDR1'')"
  shows "(\<exists>rest. fst (receive_proofs env body)
            = VerifyProof proof # TransferReward (Str ''250'') (Str ''ADDR1'') # rest)
       \<and> (\<forall>key source dest signature.
            PublicKey env (Str ''ADDR1'') = Inr key
            \<and> getAssociatedTokenAddress env = Inr source
            \<and> getOrCreateAssociatedTokenAccount env key = Inr dest
            \<and> sendTransfer env source dest 250000000000 = Inr signature \<longrightarrow>
            receive_proofs env body =
              ([VerifyProof proof,
                TransferReward (Str ''250'') (Str ''ADDR1''),
                GetOrCreateAccount key,
                SendTransfer source dest 250000000000,
                BroadcastMessage
                  (Obj [(''type'', Str ''agent''),
                        (''content'',
                         Str (''Reward of 250 tokens has been successfully transferred to wallet ADDR1. Transaction URL: https://explorer.solana.com/tx/''
                              @ signature @ ''?cluster=devnet''))])],
               \<lparr>status = 200,
                json = Obj [(''success'', Bool True),
                            (''message'', Str ''Reward processed successfully''),
                            (''transaction'',
                             Obj [(''success'', Bool True),
                                  (''signature'', Str signature),
                                  (''transactionUrl'',
                                   Str (''https://explorer.solana.com/tx/'' @ signature @ ''?cluster=devnet'')),
                                  (''amount'', Str ''250'')])]\<rparr>))"
proof -
  have cl: "classify env proof = Inr (Some Amazon)"
    using assms(2,3) by (rule classify_amazon)
  have gd: "getData env Amazon proof = ([VerifyProof proof], Inr (Str ''250'', Str ''ADDR1''))"
    using assms(4-8) by (simp add: getData_def getDataFromAmazon_def)
  obtain rest where tr: "fst (transferReward env (Str ''250'') (Str ''ADDR1''))
      = TransferReward (Str ''250'') (Str ''ADDR1'') # rest"
    using transferReward_calls by blast
  have 1: "\<exists>rest. fst (receive_proofs env body)
            = VerifyProof proof # TransferReward (Str ''250'') (Str ''ADDR1'') # rest"
    using assms(1) cl gd tr
    by (cases "transferReward env (Str ''250'') (Str ''ADDR1'')")
       (auto simp: receive_proofs_def receive_proofs_try_def split: sum.splits)
  have 2: "receive_proofs env body =
              ([VerifyProof proof,
                TransferReward (Str ''250'') (Str ''ADDR1''),
                GetOrCreateAccount key,
                SendTransfer source dest 250000000000,
                BroadcastMessage
                  (Obj [(''type'', Str ''agent''),
                        (''content'',
                         Str (''Reward of 250 tokens has been successfully transferred to wallet ADDR1. Transaction URL: https://explorer.solana.com/tx/''
                              @ signature @ ''?cluster=devnet''))])],
               \<lparr>status = 200,
                json = Obj [(''success'', Bool True),
                            (''message'', Str ''Reward processed successfully''),
                            (''transaction'',
                             Obj [(''success'', Bool True),
                                  (''signature'', Str signature),
                                  (''transactionUrl'',
                                   Str (''https://explorer.solana.com/tx/'' @ signature @ ''?cluster=devnet'')),
                                  (''amount'', Str ''250'')])]\<rparr>)"
    if "PublicKey env (Str ''ADDR1'') = Inr key"
      and "getAssociatedTokenAddress env = Inr source"
      and "getOrCreateAssociatedTokenAccount env key = Inr dest"
      and "sendTransfer env source dest 250000000000 = Inr signature"
    for key source dest signature
  proof -
    have "transferReward env (Str ''250'') (Str ''ADDR1'') =
            ([TransferReward (Str ''250'') (Str ''ADDR1''), GetOrCreateAccount key,
              SendTransfer source dest 250000000000],
             Inr (Obj [(''success'', Bool True),
                       (''signature'', Str signature),
                       (''transactionUrl'',
                          Str (''https://explorer.solana.com/tx/'' @ signature @ ''?cluster=devnet'')),
                       (''amount'', Str ''250'')]))"
      using that by (simp add: transferReward_def tokenAmount_def base_units_250)
    with assms(1) cl gd show ?thesis
      by (simp add: receive_proofs_def receive_proofs_try_def success_content_def)
  qed
  from 1 2 show ?thesis by blast
qed

lemma base_units_rupee:
  "base_units rupee_250
     = Inl (RangeError ''The number NaN cannot be converted to a BigInt because it is not an integer'')"
  by code_simp

lemma str_replace_rupee: "str_replace rupee_250 ''&#x20b9;'' [] = rupee_250"
  by code_simp

lemma transferReward_rupee:
  "\<exists>calls e. transferReward env (Str rupee_250) (Str ''ADDR1'')
       = (TransferReward (Str rupee_250) (Str ''ADDR1'') # calls, Inl e)
     \<and> (\<forall>c \<in> set calls. \<exists>k. c = GetOrCreateAccount k)"
  by (auto simp: transferReward_def tokenAmount_def base_units_rupee Let_def split: sum.splits)

text \<open>
  C1. The scenario as it is written: an Amazon proof that verifies, whose balance is
  the rupee sign itself before \<open>250\<close>, as in the balance of the test data of
  \<open>generateReclaimProofForAmazon\<close>, and whose context message is \<open>ADDR1\<close>. The
  extraction removes the HTML entity only, so \<open>transferReward\<close> is called with the
  balance unchanged, never with \<open>250\<close>; \<open>parseFloat\<close> of that amount is \<open>NaN\<close>, which
  \<open>BigInt\<close> refuses. Whatever the libraries answer, no transfer is submitted and the
  response is 500, not 200.
\<close>

theorem scenario_A_rupee:
  assumes "parse_body env body = Inr proof"
    and "embedded_url env proof = Inr (Str url)" and "sublist ''amazon'' url"
    and "verifyProof env proof = Inr True"
    and "contextData env proof = Inr ctx"
    and "get_prop ctx ''extractedParameters'' = Inr ep"
    and "get_prop ep ''balance'' = Inr (Str rupee_250)"
    and "get_prop ctx ''contextMessage'' = Inr (Str ''ADDR1'')"
  shows "take 2 (fst (receive_proofs env body))
           = [VerifyProof proof, TransferReward (Str rupee_250) (Str ''ADDR1'')]
       \<and> TransferReward (Str ''250'') (Str ''ADDR1'') \<notin> set (fst (receive_proofs env body))
       \<and> (\<forall>source dest tokens. SendTransfer source dest tokens \<notin> set (fst (receive_proofs env body)))
       \<and> status (snd (receive_proofs env body)) = 500"
proof -
  have cl: "classify env proof = Inr (Some Amazon)"
    using assms(2,3) by (rule classify_amazon)
  have gd: "getData env Amazon proof = ([VerifyProof proof], Inr (Str rupee_250, Str ''ADDR1''))"
    using assms(4-8) by (simp add: getData_def getDataFromAmazon_def str_replace_rupee)
  have ne: "rupee_250 \<noteq> []" "rupee_250 \<noteq> ''250''"
    by (simp_all add: rupee_250_def)
  from transferReward_rupee [of env] obtain calls e where
    tr: "transferReward env (Str rupee_250) (Str ''ADDR1'')
           = (TransferReward (Str rupee_250) (Str ''ADDR1'') # calls, Inl e)"
    and cs: "\<forall>c \<in> set calls. \<exists>k. c = GetOrCreateAccount k"
    by blast
  have rp: "receive_proofs env body =
      (VerifyProof proof # TransferReward (Str rupee_250) (Str ''ADDR1'') # calls
         @ [BroadcastMessage
              (Obj [(''type'', Str ''error''),
                    (''content'', Str (''Error processing reward: '' @ error_message e))])],
       \<lparr>status = 500,
        json = Obj [(''success'', Bool False), (''error'', Str (error_message e))]\<rparr>)"
    using assms(1) cl gd tr ne
    by (simp add: receive_proofs_def receive_proofs_try_def)
  from cs ne show ?thesis
    unfolding rp by auto
qed

theorem scenario_A_rupee_witness:
  "rupee_250 = [CHR 0xE2, CHR 0x82, CHR 0xB9, CHR ''2'', CHR ''5'', CHR ''0'']
   \<and> receive_proofs sample_env (Str ''amazon-rupee'')
     = ([VerifyProof (sample_proof amazon_parameters rupee_context),
         TransferReward (Str rupee_250) (Str ''ADDR1''),
         GetOrCreateAccount ''ADDR1'',
         BroadcastMessage
           (Obj [(''type'', Str ''error''),
                 (''content'',
                  Str ''Error processing reward: The number NaN cannot be converted to a BigInt because it is not an integer'')])],
        \<lparr>status = 500,
         json = Obj [(''success'', Bool False),
                     (''error'',
                      Str ''The number NaN cannot be converted to a BigInt because it is not an integer'')]\<rparr>)
   \<and> take 2 (fst (receive_proofs sample_env (Str ''amazon-rupee'')))
       = [VerifyProof (sample_proof amazon_parameters rupee_context),
          TransferReward (Str rupee_250) (Str ''ADDR1'')]
   \<and> TransferReward (Str ''250'') (Str ''ADDR1'')
         \<notin> set (fst (receive_proofs sample_env (Str ''amazon-rupee'')))
   \<and> status (snd (receive_proofs sample_env (Str ''amazon-rupee''))) = 500"
proof -
  let ?P = "sample_proof amazon_parameters rupee_context"
  let ?C = "sample_context rupee_250 (Some (Str ''ADDR1''))"
  have p: "parse_body sample_env (Str ''amazon-rupee'') = Inr ?P"
    by code_simp
  have u: "embedded_url sample_env ?P = Inr (Str ''https://www.amazon.in/gp/balance'')"
    by code_simp
  have s: "sublist ''amazon'' ''https://www.amazon.in/gp/balance''"
    by code_simp
  have v: "verifyProof sample_env ?P = Inr True"
    by (simp add: sample_env_def)
  have c: "contextData sample_env ?P = Inr ?C"
    by code_simp
  have e: "get_prop ?C ''extractedParameters'' = Inr (Obj [(''balance'', Str rupee_250)])"
    by (simp add: sample_context_def)
  have b: "get_prop (Obj [(''balance'', Str rupee_250)]) ''balance'' = Inr (Str rupee_250)"
    by simp
  have m: "get_prop ?C ''contextMessage'' = Inr (Str ''ADDR1'')"
    by (simp add: sample_context_def)
  have r: "rupee_250 = [CHR 0xE2, CHR 0x82, CHR 0xB9, CHR ''2'', CHR ''5'', CHR ''0'']"
    by (simp add: rupee_250_def)
  have full: "receive_proofs sample_env (Str ''amazon-rupee'')
     = ([VerifyProof ?P,
         TransferReward (Str rupee_250) (Str ''ADDR1''),
         GetOrCreateAccount ''ADDR1'',
         BroadcastMessage
           (Obj [(''type'', Str ''error''),
                 (''content'',
                  Str ''Error processing reward: The number NaN cannot be converted to a BigInt because it is not an integer'')])],
        \<lparr>status = 500,
         json = Obj [(''success'', Bool False),
                     (''error'',
                      Str ''The number NaN cannot be converted to a BigInt because it is not an integer'')]\<rparr>)"
    by code_simp
  from scenario_A_rupee [OF p u s v c e b m] r full show ?thesis
    by blast
qed

subsection \<open>Conversion to base units\<close>

text \<open>
  The rounding is to nearest: \<open>round_pos a b\<close> is a multiple \<open>m * 2 ^ e\<close> of the unit
  in the last place of \<open>a / b\<close>, with a significand \<open>m\<close> from \<open>2 ^ 52\<close> to \<open>2 ^ 53\<close>
  (below \<open>2 ^ 52\<close> only for a subnormal number, where \<open>e = -1074\<close>), at a distance of at
  most half that unit from \<open>a / b\<close>.
\<close>

lemma round_half_even_nearest:
  assumes "0 < d"
  shows "\<bar>2 * (round_half_even n d * d - n)\<bar> \<le> d"
proof -
  define q r where "q = n div d" and "r = n mod d"
  have n: "n = q * d + r" by (simp add: q_def r_def)
  have r: "0 \<le> r" "r < d" using assms by (simp_all add: r_def)
  have "round_half_even n d = q \<and> 2 * r \<le> d \<or> round_half_even n d = q + 1 \<and> d \<le> 2 * r"
    by (auto simp: round_half_even_def Let_def q_def r_def)
  then show ?thesis
  proof
    assume "round_half_even n d = q \<and> 2 * r \<le> d"
    then show ?thesis using r n by (simp add: algebra_simps)
  next
    assume "round_half_even n d = q + 1 \<and> d \<le> 2 * r"
    then show ?thesis using r n by (simp add: algebra_simps)
  qed
qed

lemma bitlen_nonneg: "0 \<le> bitlen n"
proof (induction n rule: bitlen.induct)
  case (1 n)
  then show ?case by (subst bitlen.simps) auto
qed

lemma bitlen_pos: "0 < n \<Longrightarrow> 0 < bitlen n"
  using bitlen_nonneg [of "n div 2"] by (subst bitlen.simps) simp

lemma bitlen_bounds:
  "0 < n \<Longrightarrow> 2 ^ nat (bitlen n - 1) \<le> n \<and> n < 2 ^ nat (bitlen n)"
proof (induction n rule: bitlen.induct)
  case (1 n)
  show ?case
  proof (cases "n = 1")
    case True
    then show ?thesis by (simp add: bitlen.simps [of 1] bitlen.simps [of 0])
  next
    case False
    with "1.prems" have h: "0 < n div 2" by simp
    with "1.IH" "1.prems" have IH: "2 ^ nat (bitlen (n div 2) - 1) \<le> n div 2"
       "n div 2 < 2 ^ nat (bitlen (n div 2))"
      by simp_all
    have b: "bitlen n = 1 + bitlen (n div 2)"
      using "1.prems" by (subst bitlen.simps) simp
    have p: "0 < bitlen (n div 2)" using h by (rule bitlen_pos)
    then have e1: "nat (bitlen n - 1) = Suc (nat (bitlen (n div 2) - 1))"
      and e2: "nat (bitlen n) = Suc (nat (bitlen (n div 2)))"
      unfolding b by simp_all
    from IH show ?thesis unfolding e1 e2 by auto
  qed
qed

lemma bitlen_bounds_real:
  assumes "0 < n"
  shows "2 powi (bitlen n - 1) \<le> real_of_int n" and "real_of_int n < 2 powi bitlen n"
proof -
  from bitlen_pos [OF assms] have p: "0 \<le> bitlen n - 1" "0 \<le> bitlen n" by simp_all
  from bitlen_bounds [OF assms]
  have "real_of_int (2 ^ nat (bitlen n - 1)) \<le> real_of_int n"
    and "real_of_int n < real_of_int (2 ^ nat (bitlen n))"
    by linarith+
  then show "2 powi (bitlen n - 1) \<le> real_of_int n" and "real_of_int n < 2 powi bitlen n"
    using p by (simp_all add: power_int_def)
qed

lemma floor_log2_test:
  assumes "0 < a" and "0 < b"
  shows "(if 0 \<le> k then b * 2 ^ nat k \<le> a else b \<le> a * 2 ^ nat (- k))
         \<longleftrightarrow> 2 powi k \<le> real_of_int a / real_of_int b"
proof (cases "0 \<le> k")
  case True
  have "b * 2 ^ nat k \<le> a \<longleftrightarrow> real_of_int (b * 2 ^ nat k) \<le> real_of_int a"
    by linarith
  also have "\<dots> \<longleftrightarrow> 2 ^ nat k \<le> real_of_int a / real_of_int b"
    using assms by (simp add: field_simps)
  finally show ?thesis using True by (simp add: power_int_def)
next
  case False
  have "b \<le> a * 2 ^ nat (- k) \<longleftrightarrow> real_of_int b \<le> real_of_int (a * 2 ^ nat (- k))"
    by linarith
  also have "\<dots> \<longleftrightarrow> inverse (2 ^ nat (- k)) \<le> real_of_int a / real_of_int b"
    using assms by (simp add: field_simps)
  finally show ?thesis using False by (simp add: power_int_def inverse_eq_divide power_one_over)
qed

lemma floor_log2_correct:
  assumes "0 < a" and "0 < b"
  shows "2 powi floor_log2 a b \<le> real_of_int a / real_of_int b"
    and "real_of_int a / real_of_int b < 2 powi (floor_log2 a b + 1)"
proof -
  define k where "k = bitlen a - bitlen b"
  let ?q = "real_of_int a / real_of_int b"
  have ra: "0 < real_of_int a" and rb: "0 < real_of_int b" using assms by simp_all
  note A = bitlen_bounds_real [OF assms(1)] and B = bitlen_bounds_real [OF assms(2)]
  have up: "?q < 2 powi (k + 1)"
  proof -
    have "?q < 2 powi bitlen a / 2 powi (bitlen b - 1)"
      using A(2) B(1) ra rb by (intro frac_less) auto
    also have "\<dots> = 2 powi (k + 1)"
      by (simp add: k_def power_int_diff power_int_add)
    finally show ?thesis .
  qed
  have lo: "2 powi (k - 1) < ?q"
  proof -
    have "2 powi (bitlen a - 1) / 2 powi bitlen b < ?q"
      using A(1) B(2) ra rb by (intro frac_less2) auto
    moreover have "2 powi (bitlen a - 1) / 2 powi bitlen b = (2::real) powi (k - 1)"
      by (simp add: k_def power_int_diff power_int_add)
    ultimately show ?thesis by simp
  qed
  have t: "floor_log2 a b = (if 2 powi k \<le> ?q then k else k - 1)"
  proof -
    have "floor_log2 a b =
        (if (if 0 \<le> k then b * 2 ^ nat k \<le> a else b \<le> a * 2 ^ nat (- k)) then k else k - 1)"
      by (simp add: floor_log2_def Let_def k_def)
    then show ?thesis
      by (simp only: floor_log2_test [OF assms])
  qed
  show "2 powi floor_log2 a b \<le> ?q"
    using lo by (simp add: t)
  show "?q < 2 powi (floor_log2 a b + 1)"
    using up by (auto simp: t)
qed

lemma round_pos_nearest:
  assumes "0 < a" and "0 < b" and "round_pos a b = Some (m, e)"
  shows "e = max (floor_log2 a b - 52) (- 1074)"
    and "\<bar>real_of_int m * 2 powi e - real_of_int a / real_of_int b\<bar> \<le> 2 powi e / 2"
proof -
  let ?q = "real_of_int a / real_of_int b"
  show e: "e = max (floor_log2 a b - 52) (- 1074)"
    using assms(3) by (auto simp: round_pos_def Let_def split: if_splits)
  define n d where "n = (if 0 \<le> e then a else a * 2 ^ nat (- e))"
    and "d = (if 0 \<le> e then b * 2 ^ nat e else b)"
  have m: "m = round_half_even n d"
    using assms(3) by (auto simp: round_pos_def Let_def n_def d_def split: if_splits)
  have d: "0 < d" using assms(2) by (simp add: d_def)
  have q: "real_of_int n / real_of_int d = ?q / 2 powi e"
    using assms(1,2) by (auto simp: n_def d_def power_int_def field_simps power_one_over)
  from round_half_even_nearest [OF d, of n]
  have "2 * (m * d - n) \<le> d" and "- d \<le> 2 * (m * d - n)"
    unfolding m by linarith+
  then have "real_of_int (2 * (m * d - n)) \<le> real_of_int d"
    and "real_of_int (- d) \<le> real_of_int (2 * (m * d - n))"
    by (simp_all only: of_int_le_iff)
  then have "2 * (real_of_int m * real_of_int d) - 2 * real_of_int n \<le> real_of_int d"
    and "- real_of_int d \<le> 2 * (real_of_int m * real_of_int d) - 2 * real_of_int n"
    by simp_all
  then have b: "\<bar>real_of_int m * real_of_int d - real_of_int n\<bar> \<le> real_of_int d / 2"
    by linarith
  have "real_of_int m - real_of_int n / real_of_int d
      = (real_of_int m * real_of_int d - real_of_int n) / real_of_int d"
    using d by (simp add: field_simps)
  then have "\<bar>real_of_int m - real_of_int n / real_of_int d\<bar>
      = \<bar>real_of_int m * real_of_int d - real_of_int n\<bar> / real_of_int d"
    using d by simp
  also have "\<dots> \<le> (real_of_int d / 2) / real_of_int d"
    using b d by (intro divide_right_mono) auto
  also have "\<dots> = 1 / 2"
    using d by simp
  finally have h: "\<bar>real_of_int m - ?q / 2 powi e\<bar> \<le> 1 / 2"
    unfolding q .
  have "(real_of_int m - ?q / 2 powi e) * 2 powi e = real_of_int m * 2 powi e - ?q"
    by (simp add: field_simps)
  then have "\<bar>real_of_int m * 2 powi e - ?q\<bar> = \<bar>(real_of_int m - ?q / 2 powi e) * 2 powi e\<bar>"
    by (simp only:)
  also have "\<dots> = \<bar>real_of_int m - ?q / 2 powi e\<bar> * \<bar>2 powi e\<bar>"
    by (rule abs_mult)
  also have "\<bar>(2::real) powi e\<bar> = 2 powi e"
    by simp
  also have "\<bar>real_of_int m - ?q / 2 powi e\<bar> * 2 powi e \<le> 1 / 2 * 2 powi e"
    using h by (intro mult_right_mono) auto
  finally show "\<bar>real_of_int m * 2 powi e - ?q\<bar> \<le> 2 powi e / 2"
    by simp
qed

lemma round_pos_significand:
  assumes "0 < a" and "0 < b" and "round_pos a b = Some (m, e)"
  shows "- 1074 \<le> e" and "0 \<le> m" and "m \<le> 2 ^ 53" and "- 1074 < e \<longrightarrow> 2 ^ 52 \<le> m"
proof -
  let ?q = "real_of_int a / real_of_int b"
  define k where "k = floor_log2 a b"
  note e = round_pos_nearest(1) [OF assms] and near = round_pos_nearest(2) [OF assms]
  note lo = floor_log2_correct(1) [OF assms(1,2)] and hi = floor_log2_correct(2) [OF assms(1,2)]
  show "- 1074 \<le> e" using e by simp
  have p: "(0::real) < 2 powi e" by simp
  have q0: "0 < ?q" using assms(1,2) by simp
  have "real_of_int m * 2 powi e \<ge> ?q - 2 powi e / 2"
    using near by linarith
  then have "real_of_int m * 2 powi e > - 1 * 2 powi e"
    using q0 p by linarith
  then have "real_of_int m > - 1"
    using p by (simp only: mult_less_cancel_right_pos)
  then show "0 \<le> m" by linarith
  have ke: "floor_log2 a b + 1 \<le> e + 53" using e by simp
  have "?q < 2 powi (e + 53)"
    using hi power_int_increasing [OF ke, of "2::real"] by simp
  also have "\<dots> = 2 ^ 53 * 2 powi e"
    by (simp add: power_int_add)
  finally have "real_of_int m * 2 powi e < 2 ^ 53 * 2 powi e + 1 * 2 powi e"
    using near by linarith
  then have "real_of_int m * 2 powi e < (2 ^ 53 + 1) * 2 powi e"
    by (simp add: algebra_simps)
  then have "real_of_int m < 2 ^ 53 + 1"
    using p by (simp only: mult_less_cancel_right_pos)
  then have "real_of_int m < real_of_int (2 ^ 53 + 1)" by simp
  then show "m \<le> 2 ^ 53" by linarith
  show "- 1074 < e \<longrightarrow> 2 ^ 52 \<le> m"
  proof
    assume "- 1074 < e"
    define c :: real where "c = 2 ^ 52"
    from \<open>- 1074 < e\<close> e have "floor_log2 a b = e + 52" by simp
    with lo have "2 powi (e + 52) \<le> ?q" by simp
    moreover have "(2::real) powi (e + 52) = c * 2 powi e"
      by (simp add: power_int_add c_def)
    ultimately have A: "c * 2 powi e \<le> ?q" by simp
    have B: "?q - 2 powi e / 2 \<le> real_of_int m * 2 powi e"
      using near by linarith
    have "c * 2 powi e - 1 * 2 powi e < real_of_int m * 2 powi e"
      using A B p by linarith
    then have "(c - 1) * 2 powi e < real_of_int m * 2 powi e"
      by (simp only: left_diff_distrib)
    then have "c - 1 < real_of_int m"
      using p by (simp only: mult_less_cancel_right_pos)
    then have "real_of_int (2 ^ 52 - 1) < real_of_int m"
      by (simp add: c_def)
    then show "2 ^ 52 \<le> m" by linarith
  qed
qed

text \<open>
  On a decimal amount string \<open>parseFloat\<close> reads the whole string, and gives the double
  nearest to its value.
\<close>

lemma digit_not_special:
  assumes "is_digit c"
  shows "c \<noteq> CHR ''.''" "c \<noteq> CHR ''-''" "c \<noteq> CHR ''+''" "c \<noteq> CHR ''I''"
  using assms by (auto simp: is_digit_def)

lemma ws_len_digit:
  assumes "is_digit c"
  shows "ws_len (c # cs) = 0"
proof -
  have "(of_char c :: int) \<notin> {9, 10, 11, 12, 13, 32, 194, 225, 226, 227, 239}"
    using assms by (auto simp: is_digit_def)
  then have "c \<notin> {CHR 0x09, CHR 0x0A, CHR 0x0B, CHR 0x0C, CHR 0x0D, CHR 0x20,
                  CHR 0xC2, CHR 0xE1, CHR 0xE2, CHR 0xE3, CHR 0xEF}"
    by auto
  then show ?thesis
    by (simp add: ws_len_def)
qed

lemma parseFloat_digit_start:
  assumes "is_digit c"
  shows "parseFloat (c # cs) = parse_unsigned False (c # cs)"
proof -
  have "trim_start (c # cs) = c # cs"
    by (simp add: trim_start.simps ws_len_digit [OF assms])
  then show ?thesis
    using digit_not_special [OF assms] by (simp add: parseFloat_def)
qed

lemma takeWhile_all_digits: "list_all is_digit xs \<Longrightarrow> takeWhile is_digit xs = xs"
  by (induction xs) auto

lemma dropWhile_all_digits: "list_all is_digit xs \<Longrightarrow> dropWhile is_digit xs = []"
  by (induction xs) auto

lemma takeWhile_digits_dot:
  "list_all is_digit xs \<Longrightarrow> takeWhile is_digit (xs @ CHR ''.'' # ys) = xs"
  by (induction xs) (auto simp: is_digit_def)

lemma dropWhile_digits_dot:
  "list_all is_digit xs \<Longrightarrow> dropWhile is_digit (xs @ CHR ''.'' # ys) = CHR ''.'' # ys"
  by (induction xs) (auto simp: is_digit_def)

lemma not_Infinity:
  assumes "ip \<noteq> []" and "list_all is_digit ip"
  shows "\<not> prefix ''Infinity'' (ip @ rest)"
proof -
  from assms obtain c cs where "ip = c # cs" "is_digit c"
    by (cases ip) auto
  then show ?thesis
    using digit_not_special(4) [of c] by simp
qed

lemma parse_unsigned_whole:
  assumes "ip \<noteq> []" and "list_all is_digit ip"
  shows "parse_unsigned neg ip = round_double neg (digits_val ip) 1"
proof -
  have ninf: "\<not> prefix ''Infinity'' ip"
    using not_Infinity [OF assms, of "[]"] by simp
  have tw: "takeWhile is_digit ip = ip" and dw: "dropWhile is_digit ip = []"
    using assms(2) by (simp_all add: takeWhile_all_digits dropWhile_all_digits)
  have "parse_exponent [] = 0"
    by (simp add: parse_exponent_def)
  then show ?thesis
    unfolding parse_unsigned_def Let_def tw dw using ninf assms(1) by simp
qed

lemma parse_unsigned_fraction:
  assumes "ip \<noteq> []" and "list_all is_digit ip" and "fp \<noteq> []" and "list_all is_digit fp"
  shows "parse_unsigned neg (ip @ CHR ''.'' # fp)
           = round_double neg (digits_val (ip @ fp)) (10 ^ length fp)"
proof -
  have ninf: "\<not> prefix ''Infinity'' (ip @ CHR ''.'' # fp)"
    by (rule not_Infinity [OF assms(1,2)])
  have tw: "takeWhile is_digit (ip @ CHR ''.'' # fp) = ip"
    and dw: "dropWhile is_digit (ip @ CHR ''.'' # fp) = CHR ''.'' # fp"
    using assms(2) by (simp_all add: takeWhile_digits_dot dropWhile_digits_dot)
  have tf: "takeWhile is_digit fp = fp" and df: "dropWhile is_digit fp = []"
    using assms(4) by (simp_all add: takeWhile_all_digits dropWhile_all_digits)
  have pe: "parse_exponent [] = 0"
    by (simp add: parse_exponent_def)
  have x: "\<not> 0 \<le> - int (length fp)" "nat (int (length fp)) = length fp"
    using assms(3) by simp_all
  show ?thesis
    unfolding parse_unsigned_def Let_def tw dw
    using ninf assms(1,3) by (simp add: tf df pe x)
qed

lemma no_dot_digits:
  assumes "list_all is_digit xs"
  shows "filter (\<lambda>c. c \<noteq> CHR ''.'') xs = xs"
    and "dropWhile (\<lambda>c. c \<noteq> CHR ''.'') xs = []"
    and "dropWhile (\<lambda>c. c \<noteq> CHR ''.'') (xs @ CHR ''.'' # ys) = CHR ''.'' # ys"
  using assms by (induction xs) (auto dest: digit_not_special(1))

lemma decimal_string_cases:
  assumes "decimal_string s"
  obtains (whole) "s \<noteq> []" "list_all is_digit s"
  | (fraction) ip fp where "s = ip @ CHR ''.'' # fp" "ip \<noteq> []" "fp \<noteq> []"
      "list_all is_digit ip" "list_all is_digit fp"
proof (cases "CHR ''.'' \<in> set s")
  case False
  then have "takeWhile (\<lambda>c. c \<noteq> CHR ''.'') s = s"
    by (intro takeWhile_eq_all_conv [THEN iffD2]) auto
  with assms show ?thesis
    by (intro whole) (auto simp: decimal_string_def Let_def)
next
  case True
  define ip where "ip = takeWhile (\<lambda>c. c \<noteq> CHR ''.'') s"
  define r where "r = dropWhile (\<lambda>c. c \<noteq> CHR ''.'') s"
  have s: "s = ip @ r"
    by (simp add: ip_def r_def)
  from True have "r \<noteq> []"
    by (auto simp: r_def)
  moreover from this have "hd r = CHR ''.''"
    using hd_dropWhile [of "\<lambda>c. c \<noteq> CHR ''.''" s] by (simp add: r_def)
  ultimately have r: "r = CHR ''.'' # drop 1 r"
    by (cases r) auto
  from assms True have "ip \<noteq> []" "list_all is_digit ip"
    "list_all is_digit (drop 1 r)" "drop 1 r \<noteq> []"
    by (auto simp: decimal_string_def Let_def ip_def r_def)
  moreover from s r have "s = ip @ CHR ''.'' # drop 1 r"
    by simp
  ultimately show ?thesis
    by (intro fraction [of ip "drop 1 r"])
qed

lemma parseFloat_decimal:
  assumes "decimal_string s"
  shows "parseFloat s = round_double False (decimal_digits s) (10 ^ decimal_scale s)"
  using assms
proof (cases rule: decimal_string_cases)
  case whole
  then obtain c cs where s: "s = c # cs" and c: "is_digit c"
    by (cases s) auto
  have "parseFloat s = parse_unsigned False s"
    unfolding s by (rule parseFloat_digit_start [OF c])
  also have "\<dots> = round_double False (digits_val s) 1"
    by (rule parse_unsigned_whole [OF whole])
  finally show ?thesis
    by (simp add: decimal_digits_def decimal_scale_def no_dot_digits [OF whole(2)])
next
  case (fraction ip fp)
  then obtain c cs where ip: "ip = c # cs" and c: "is_digit c"
    by (cases ip) auto
  have "parseFloat s = parse_unsigned False s"
    unfolding fraction(1) ip append_Cons by (rule parseFloat_digit_start [OF c])
  also have "\<dots> = round_double False (digits_val (ip @ fp)) (10 ^ length fp)"
    unfolding fraction(1) by (rule parse_unsigned_fraction [OF fraction(2,4,3,5)])
  finally show ?thesis
    by (simp add: decimal_digits_def decimal_scale_def fraction(1)
        no_dot_digits [OF fraction(4)] no_dot_digits(1) [OF fraction(5)])
qed

lemma base_units_examples:
  "base_units ''1'' = Inr 1000000000"
  "base_units ''0.000000001'' = Inr 1"
  "base_units ''0.0000000004'' = Inr 0"
  by code_simp+

text \<open>
  C5, as the code has it. For every decimal amount string, the amount converted to base
  units is \<open>BigInt(Math.floor(x))\<close>, where \<open>x\<close> is the product in double precision of the
  double nearest to the amount and of \<open>1e9\<close>. \<open>1\<close> gives 1000000000, \<open>0.000000001\<close>
  gives 1 and \<open>0.0000000004\<close> gives 0.
\<close>

theorem decimal_conversion:
  "(decimal_string s \<longrightarrow>
      tokenAmount env (Str s)
        = BigInt (Math_floor (double_mult
            (round_double False (decimal_digits s) (10 ^ decimal_scale s)) lit_1e9)))
   \<and> tokenAmount env (Str ''1'') = Inr 1000000000
   \<and> tokenAmount env (Str ''0.000000001'') = Inr 1
   \<and> tokenAmount env (Str ''0.0000000004'') = Inr 0"
  by (simp add: tokenAmount_def base_units_def [of s] parseFloat_decimal base_units_examples)

theorem decimal_conversion_witness:
  "decimal_string ''0.0000000004''
   \<and> decimal_digits ''0.0000000004'' = 4 \<and> decimal_scale ''0.0000000004'' = 10
   \<and> round_double False 4 (10 ^ 10) = Fin 7737125245533627 (- 84)
   \<and> double_mult (Fin 7737125245533627 (- 84)) lit_1e9 = Fin 7205759403792794 (- 54)
   \<and> Math_floor (Fin 7205759403792794 (- 54)) = Fin 0 0
   \<and> tokenAmount sample_env (Str ''0.0000000004'') = Inr 0"
proof -
  have d: "decimal_string ''0.0000000004''"
    by code_simp
  have v: "decimal_digits ''0.0000000004'' = 4" "decimal_scale ''0.0000000004'' = 10"
    by code_simp+
  have r: "round_double False 4 (10 ^ 10) = Fin 7737125245533627 (- 84)"
    by code_simp
  have m: "double_mult (Fin 7737125245533627 (- 84)) lit_1e9 = Fin 7205759403792794 (- 54)"
    by code_simp
  have f: "Math_floor (Fin 7205759403792794 (- 54)) = Fin 0 0"
    by code_simp
  from decimal_conversion [of "''0.0000000004''" sample_env] d
  have "tokenAmount sample_env (Str ''0.0000000004'') = Inr 0"
    by blast
  with d v r m f show ?thesis by blast
qed

text \<open>
  The conversion is not \<open>floor(amount * 10^9)\<close> for every decimal amount string: the
  double nearest to 8.2 times \<open>1e9\<close> is just below 8200000000, and \<open>8.2\<close> gives
  8199999999.
\<close>

theorem decimal_conversion_counterexample:
  "decimal_string ''8.2''
   \<and> tokenAmount sample_env (Str ''8.2'') = Inr 8199999999
   \<and> spec_base_units ''8.2'' = 8200000000"
proof -
  have "decimal_string ''8.2''" "tokenAmount sample_env (Str ''8.2'') = Inr 8199999999"
    by code_simp+
  moreover have "decimal_digits ''8.2'' = 82" "decimal_scale ''8.2'' = 1"
    by code_simp+
  then have "spec_base_units ''8.2'' = 8200000000"
    by (simp add: spec_base_units_def)
  ultimately show ?thesis by blast
qed

end
